theory Spec2Isabelle
  imports Main "HOL-Library.Word"
begin

section \<open>Shared data\<close>

text \<open>
  A Go \<^verbatim>\<open>[]byte\<close> is a list of 8-bit words. An \<^verbatim>\<open>error\<close> value is identified by how it
  was built: \<^verbatim>\<open>errors.New\<close> / \<^verbatim>\<open>fmt.Errorf\<close> by the message, \<^verbatim>\<open>status.Error\<close> by its code, and
  the one formatted error of \<^verbatim>\<open>messageHandler\<close> by the message type it prints. Errors that come
  from a library (pgx, go-redis, protobuf) are values of the same type handed in by the
  environment. A nil error is \<open>None\<close>.
\<close>

type_synonym bytes = "8 word list"

text \<open>
  The constants of package \<^verbatim>\<open>message\<close> are declared outside the given sources; each one the
  handlers mention is a constructor, and every other value of the type field is \<open>MSG_OTHER\<close>.
\<close>

datatype msg_type =
    MSG_TYPE_ADD_DATASET_IDENTIFIER
  | MSG_SYNCHRONIZE_DATASET_IDENTIFIERS
  | MSG_TYPE_OK
  | MSG_TYPE_PROBE
  | MSG_TYPE_POLICY_STORE_UPDATE
  | MSG_TYPE_ROLLBACK_CHECKOUT
  | MSG_OTHER string

datatype error =
    Err string
  | StatusInvalidArgument string
  | ErrUnexpectedMessageType msg_type

subsection \<open>Protobuf messages (package pb)\<close>

text \<open>
  Pointers to messages are options; the generated getters return the zero value on a nil
  receiver. A slice that the code compares with nil is an option of a list.
\<close>

record pb_Timestamp =
  Seconds :: "64 word"
  Nanos :: "32 word"

record pb_Node =
  Name :: string
  IfritAddress :: string
  Node_Id :: bytes
  HttpsAddress :: string
  Port :: "32 word"
  BootTime :: "pb_Timestamp option"

record pb_Policy =
  DatasetIdentifier :: string
  Decision :: bool

record pb_GossipMessageBody =
  Policy :: "pb_Policy option"

record pb_GossipMessage =
  GossipMessageID :: string
  GossipMessageBody :: "pb_GossipMessageBody option list option"

record pb_MsgSignature =
  R :: bytes
  S :: bytes

record pb_Message =
  Type :: msg_type
  Sender :: "pb_Node option"
  StringValue :: string
  StringSlice :: "string list option"
  GossipMessage :: "pb_GossipMessage option"
  Signature :: "pb_MsgSignature option"

record pb_HandshakeResponse =
  Ip :: string
  Resp_Id :: bytes

definition GetName :: "pb_Node option \<Rightarrow> string" where
  "GetName n = (case n of None \<Rightarrow> [] | Some x \<Rightarrow> Name x)"

definition GetId :: "pb_Node option \<Rightarrow> bytes" where
  "GetId n = (case n of None \<Rightarrow> [] | Some x \<Rightarrow> Node_Id x)"

definition GetR :: "pb_MsgSignature option \<Rightarrow> bytes" where
  "GetR sg = (case sg of None \<Rightarrow> [] | Some x \<Rightarrow> R x)"

definition GetS :: "pb_MsgSignature option \<Rightarrow> bytes" where
  "GetS sg = (case sg of None \<Rightarrow> [] | Some x \<Rightarrow> S x)"

definition GetPolicy :: "pb_GossipMessageBody option \<Rightarrow> pb_Policy option" where
  "GetPolicy m = (case m of None \<Rightarrow> None | Some x \<Rightarrow> Policy x)"

definition GetGossipMessageBody ::
  "pb_GossipMessage option \<Rightarrow> pb_GossipMessageBody option list option" where
  "GetGossipMessageBody g = (case g of None \<Rightarrow> None | Some x \<Rightarrow> GossipMessageBody x)"

text \<open>
  \<^verbatim>\<open>node.GetBootTime().AsTime()\<close>: a nil timestamp reads as seconds 0 and nanos 0.
\<close>

definition AsTime :: "pb_Timestamp option \<Rightarrow> pb_Timestamp" where
  "AsTime t = (case t of None \<Rightarrow> \<lparr>Seconds = 0, Nanos = 0\<rparr> | Some x \<Rightarrow> x)"

text \<open>The bytes of a Go string (\<^verbatim>\<open>[]byte(s)\<close>) and back (\<^verbatim>\<open>string(b)\<close>).\<close>

definition bytes_of_string :: "string \<Rightarrow> bytes" where
  "bytes_of_string s = map (\<lambda>c. of_char c) s"

definition string_of_bytes :: "bytes \<Rightarrow> string" where
  "string_of_bytes b = map (\<lambda>w. char_of (unat w)) b"

text \<open>\<^verbatim>\<open>%d\<close> of \<^verbatim>\<open>fmt.Sprintf\<close> on an int.\<close>

fun showNat :: "nat \<Rightarrow> string" where
  "showNat n =
     (if n < 10 then [''0123456789'' ! n]
      else showNat (n div 10) @ [''0123456789'' ! (n mod 10)])"

declare showNat.simps [simp del]

definition showInt :: "int \<Rightarrow> string" where
  "showInt i = (if i < 0 then CHR ''-'' # showNat (nat (- i)) else showNat (nat i))"

section \<open>Membership manager: the node table (core/membershipmanager/database.go)\<close>

text \<open>
  The PostgreSQL table behind \<^verbatim>\<open>m.pool\<close> is a list of rows with the six columns the INSERT
  statement names. The surrogate key column that the SELECT statements also scan is assigned
  by the database and written by none of the statements below. \<^verbatim>\<open>ON CONFLICT (node_name)\<close>
  needs a unique index on \<open>node_name\<close>: the tables the database can hold are those with
  distinct names.
\<close>

record node_row =
  node_name :: string
  ip_address :: string
  public_id :: bytes
  https_address :: string
  port :: "32 word"
  boottime :: string

type_synonym node_table = "node_row list"

definition unique_node_names :: "node_table \<Rightarrow> bool" where
  "unique_node_names t = distinct (map node_name t)"

text \<open>
  \<^verbatim>\<open>INSERT INTO t (...) VALUES ($1..$6) ON CONFLICT (node_name) DO UPDATE SET ... WHERE
  t.node_name = $1\<close>: a row with the name is overwritten in place, otherwise the row is added.
\<close>

definition sql_upsert_node :: "node_row \<Rightarrow> node_table \<Rightarrow> node_table" where
  "sql_upsert_node new t =
     (if node_name new \<in> set (map node_name t)
      then map (\<lambda>r. if node_name r = node_name new then new else r) t
      else t @ [new])"

text \<open>\<^verbatim>\<open>DELETE FROM t WHERE node_name = $1\<close>: the table left, and the rows affected.\<close>

definition sql_delete_node :: "string \<Rightarrow> node_table \<Rightarrow> node_table \<times> nat" where
  "sql_delete_node k t =
     (filter (\<lambda>r. node_name r \<noteq> k) t, length (filter (\<lambda>r. node_name r = k) t))"

text \<open>
  What a call takes from outside the program: the error of \<^verbatim>\<open>m.pool.Exec\<close> when the database
  fails the statement (then the table is as before), and \<^verbatim>\<open>Format(time.RFC1123Z)\<close> of the
  time library. The log lines of the two functions are left out: they change neither the
  table nor the result.
\<close>

record pg_env =
  execErr :: "error option"
  formatRFC1123Z :: "pb_Timestamp \<Rightarrow> string"

definition errNoNodeId :: error where
  "errNoNodeId = Err ''Node's name is not set''"

definition errNilNode :: error where
  "errNilNode = Err ''Node is nil''"

definition dbInsertNetworkNode ::
  "pg_env \<Rightarrow> node_table \<Rightarrow> string \<Rightarrow> pb_Node option \<Rightarrow> node_table \<times> error option" where
  "dbInsertNetworkNode env pool nodeId node =
     (if nodeId = [] then (pool, Some errNoNodeId)
      else case node of
        None \<Rightarrow> (pool, Some errNilNode)
      | Some n \<Rightarrow>
          (let boottime = formatRFC1123Z env (AsTime (BootTime n)) in
           case execErr env of
             Some err \<Rightarrow> (pool, Some err)
           | None \<Rightarrow>
               (sql_upsert_node
                  \<lparr>node_name = nodeId, ip_address = IfritAddress n, public_id = Node_Id n,
                   https_address = HttpsAddress n, port = Port n, boottime = boottime\<rparr> pool,
                None)))"

definition dbDeleteNetworkNode ::
  "pg_env \<Rightarrow> node_table \<Rightarrow> string \<Rightarrow> node_table \<times> error option" where
  "dbDeleteNetworkNode env pool nodeId =
     (if nodeId = [] then (pool, Some (Err ''Node id is empty''))
      else case execErr env of
        Some err \<Rightarrow> (pool, Some err)
      | None \<Rightarrow>
          (let (pool', rowsAffected) = sql_delete_node nodeId pool in
           if rowsAffected \<noteq> 1
           then (pool', Some (Err (''Could not delete node with id '' @ [CHR 0x27] @ nodeId @ [CHR 0x27])))
           else (pool', None)))"

section \<open>Dataset lookup service (core/datasetmanager/datasetlookupservice.go)\<close>

text \<open>
  The service talks to two stores. The Redis client is a key-value map, nil (\<open>None\<close>) when no
  Redis options were configured. Every call that leaves the program (Redis, the SQL
  functions, the logger) is appended to \<open>calls\<close>, in the order the code makes it, so that
  "checks the cache first" and "does not consult the store" are statements about this list.
  The other fields of the struct (the SQL handle, the configuration, the schema and table
  names) are read only by the SQL functions.
\<close>

datatype lookup_call =
    RedisExists string
  | RedisSet string bytes
  | DbDatasetNodeExists string
  | DbSelectDatasetNode string
  | DbInsertDatasetNode string "pb_Node option"
  | LogError error
  | LogPrintln string

record DatasetLookupService =
  redisClient :: "(string \<rightharpoonup> bytes) option"
  calls :: "lookup_call list"

text \<open>
  What a call takes from outside the program. \<open>redisExistsErr\<close> and \<open>redisSetErr\<close> are the
  errors of the Redis commands \<^verbatim>\<open>EXISTS\<close> and \<^verbatim>\<open>SET\<close> when Redis fails them (a failed \<^verbatim>\<open>SET\<close>
  stores nothing); \<open>protoMarshalNode\<close> is \<^verbatim>\<open>proto.Marshal\<close> on a node. The three functions
  \<^verbatim>\<open>dbDatasetNodeExists\<close>, \<^verbatim>\<open>dbSelectDatasetNode\<close> and \<^verbatim>\<open>dbInsertDatasetNode\<close> are declared in a
  file of the package that is not among the sources; they are parameters with the types
  their call sites give them.
\<close>

record lookup_env =
  redisExistsErr :: "error option"
  redisSetErr :: "error option"
  protoMarshalNode :: "pb_Node option \<Rightarrow> error + bytes"
  dbDatasetNodeExists :: "string \<Rightarrow> bool"
  dbSelectDatasetNode :: "string \<Rightarrow> pb_Node option"
  dbInsertDatasetNode :: "string \<Rightarrow> pb_Node option \<Rightarrow> error option"

definition record_call :: "DatasetLookupService \<Rightarrow> lookup_call \<Rightarrow> DatasetLookupService" where
  "record_call d c = d\<lparr>calls := calls d @ [c]\<rparr>"

text \<open>\<^verbatim>\<open>redisClient.Exists(key)\<close>: the number of the given keys that exist, or the error.\<close>

definition redis_Exists :: "lookup_env \<Rightarrow> (string \<rightharpoonup> bytes) \<Rightarrow> string \<Rightarrow> error + int" where
  "redis_Exists env rc key =
     (case redisExistsErr env of
        Some err \<Rightarrow> Inl err
      | None \<Rightarrow> Inr (if rc key = None then 0 else 1))"

text \<open>\<^verbatim>\<open>redisClient.Set(key, value, 0).Err()\<close>.\<close>

definition redis_Set ::
  "lookup_env \<Rightarrow> (string \<rightharpoonup> bytes) \<Rightarrow> string \<Rightarrow> bytes \<Rightarrow> (string \<rightharpoonup> bytes) \<times> error option" where
  "redis_Set env rc key val =
     (case redisSetErr env of
        Some err \<Rightarrow> (rc, Some err)
      | None \<Rightarrow> (rc(key \<mapsto> val), None))"

text \<open>
  The \<open>cache...\<close> methods dereference \<^verbatim>\<open>d.redisClient\<close>; their callers test it for nil first,
  so they take the client they were given.
\<close>

definition cacheInsertDatasetNode ::
  "lookup_env \<Rightarrow> DatasetLookupService \<Rightarrow> (string \<rightharpoonup> bytes) \<Rightarrow> string \<Rightarrow> pb_Node option
     \<Rightarrow> DatasetLookupService \<times> error option" where
  "cacheInsertDatasetNode env d rc datasetId node =
     (let d1 = record_call d (LogPrintln ''Inserting into cache!'') in
      case protoMarshalNode env node of
        Inl err \<Rightarrow> (d1, Some err)
      | Inr nodeBytes \<Rightarrow>
          (case redis_Set env rc datasetId nodeBytes of
             (rc', err) \<Rightarrow>
               ((record_call d1 (RedisSet datasetId nodeBytes))\<lparr>redisClient := Some rc'\<rparr>, err)))"

definition InsertDatasetNode ::
  "lookup_env \<Rightarrow> DatasetLookupService \<Rightarrow> string \<Rightarrow> pb_Node option
     \<Rightarrow> DatasetLookupService \<times> error option" where
  "InsertDatasetNode env d datasetId node =
     (let d1 =
        (case redisClient d of
           None \<Rightarrow> d
         | Some rc \<Rightarrow>
             (case cacheInsertDatasetNode env d rc datasetId node of
                (d', Some err) \<Rightarrow> record_call d' (LogError err)
              | (d', None) \<Rightarrow> d'))
      in (record_call d1 (DbInsertDatasetNode datasetId node),
          dbInsertDatasetNode env datasetId node))"

definition cacheDatasetNodeExists ::
  "lookup_env \<Rightarrow> (string \<rightharpoonup> bytes) \<Rightarrow> string \<Rightarrow> bool \<times> error option" where
  "cacheDatasetNodeExists env rc datasetId =
     (case redis_Exists env rc datasetId of
        Inl err \<Rightarrow> (False, Some err)
      | Inr r \<Rightarrow> (if r = 1 then (True, None) else (False, None)))"

text \<open>
  The second half of \<^verbatim>\<open>DatasetNodeExists\<close>, from the comment "If there was a cache miss but a
  hit in PSQL, insert it into Redis" on.
\<close>

definition DatasetNodeExists_store ::
  "lookup_env \<Rightarrow> DatasetLookupService \<Rightarrow> string \<Rightarrow> DatasetLookupService \<times> bool" where
  "DatasetNodeExists_store env d datasetId =
     (let d2 = record_call d (DbDatasetNodeExists datasetId);
          exists = dbDatasetNodeExists env datasetId
      in case redisClient d2 of
        None \<Rightarrow> (d2, exists)
      | Some rc \<Rightarrow>
          if exists then
            (let d3 = record_call d2 (DbSelectDatasetNode datasetId) in
             case dbSelectDatasetNode env datasetId of
               None \<Rightarrow> (d3, exists)
             | Some node \<Rightarrow>
                 (case protoMarshalNode env (Some node) of
                    Inl err \<Rightarrow> (record_call d3 (LogError err), exists)
                  | Inr nodeBytes \<Rightarrow>
                      (let d4 = record_call d3 (RedisSet datasetId nodeBytes) in
                       case redis_Set env rc datasetId nodeBytes of
                         (rc', Some err) \<Rightarrow>
                           (record_call (d4\<lparr>redisClient := Some rc'\<rparr>) (LogError err), exists)
                       | (rc', None) \<Rightarrow> (d4\<lparr>redisClient := Some rc'\<rparr>, exists))))
          else (d2, exists))"

definition DatasetNodeExists ::
  "lookup_env \<Rightarrow> DatasetLookupService \<Rightarrow> string \<Rightarrow> DatasetLookupService \<times> bool" where
  "DatasetNodeExists env d datasetId =
     (if datasetId = []
      then (record_call d (LogError (Err ''Dataset identifier must not be empty'')), False)
      else case redisClient d of
        None \<Rightarrow> DatasetNodeExists_store env d datasetId
      | Some rc \<Rightarrow>
          (let d0 = record_call d (RedisExists datasetId) in
           case cacheDatasetNodeExists env rc datasetId of
             (exists, err) \<Rightarrow>
               if exists \<and> err = None then (d0, exists)
               else
                 (case err of
                    Some e \<Rightarrow> DatasetNodeExists_store env (record_call d0 (LogError e)) datasetId
                  | None \<Rightarrow> DatasetNodeExists_store env d0 datasetId)))"

section \<open>Directory server core (core/directoryserver/directoryservercore.go)\<close>

record Config =
  Config_Name :: string
  HTTPPort :: int
  GRPCPort :: int
  SQLConnectionString :: string
  Hostname :: string
  IfritCryptoUnitWorkingDirectory :: string
  IfritTCPPort :: int
  IfritUDPPort :: int

subsection \<open>The collaborators behind the interfaces\<close>

text \<open>
  The membership manager is a Cache-Backed Registry: the node table of the database and an
  in-memory cache of nodes by name. \<open>memCacheErr\<close> is the error of the cache write, if any.
\<close>

record MembershipManagerUnit =
  pool :: node_table
  memCache :: "string \<rightharpoonup> pb_Node"

record mem_env =
  pg :: pg_env
  memCacheErr :: "error option"

text \<open>
  Modelled from the spec: the method \<^verbatim>\<open>AddNetworkNode\<close> of the membership manager is declared
  in a file that is not among the sources (only \<^verbatim>\<open>dbInsertNetworkNode\<close>, which it drives, is).
  The spec's Insert of a Cache-Backed Registry: the persistent store is written as the
  authoritative operation and its error is returned; the cache write is best-effort and its
  failure never fails the insert. The cache is written first, as the dataset lookup service
  in the sources does.
\<close>

definition AddNetworkNode ::
  "mem_env \<Rightarrow> MembershipManagerUnit \<Rightarrow> string \<Rightarrow> pb_Node option
     \<Rightarrow> MembershipManagerUnit \<times> error option" where
  "AddNetworkNode env m nodeId node =
     (let m1 =
        (case (memCacheErr env, node) of
           (None, Some n) \<Rightarrow> m\<lparr>memCache := (memCache m)(nodeId \<mapsto> n)\<rparr>
         | _ \<Rightarrow> m)
      in case dbInsertNetworkNode (pg env) (pool m1) nodeId node of
        (pool', err) \<Rightarrow> (m1\<lparr>pool := pool'\<rparr>, err))"

text \<open>The dataset lookup table of the directory: dataset identifier to owning node name.\<close>

type_synonym lookup_table = "string \<rightharpoonup> string"

text \<open>
  Modelled from the spec: the implementation of \<^verbatim>\<open>InsertDatasetLookupEntry\<close> behind the
  interface \<^verbatim>\<open>datasetLookupService\<close> is not among the sources. A dataset lookup entry maps a
  dataset identifier to the name of the node that owns it, with at most one owning node per
  identifier (last writer wins); a failed insert, whose error is \<open>insertErr\<close>, leaves the
  table as it was.
\<close>

definition InsertDatasetLookupEntry ::
  "error option \<Rightarrow> lookup_table \<Rightarrow> string \<Rightarrow> string \<Rightarrow> lookup_table \<times> error option" where
  "InsertDatasetLookupEntry insertErr t datasetId nodeName =
     (case insertErr of
        Some err \<Rightarrow> (t, Some err)
      | None \<Rightarrow> (t(datasetId \<mapsto> nodeName), None))"

text \<open>The ledger of observed gossip: the identifiers recorded so far.\<close>

type_synonym gossip_ledger = "string list"

text \<open>
  Modelled from the spec: the gossip observer behind the interface \<^verbatim>\<open>gossipObserver\<close> is not
  among the sources. \<^verbatim>\<open>InsertObservedGossip\<close> records a message's unique identifier; entries
  are never evicted. A nil message has no identifier to record: the insert reports an error.
\<close>

definition InsertObservedGossip ::
  "gossip_ledger \<Rightarrow> pb_GossipMessage option \<Rightarrow> gossip_ledger \<times> error option" where
  "InsertObservedGossip obs g =
     (case g of
        None \<Rightarrow> (obs, Some (Err ''Gossip message is nil''))
      | Some m \<Rightarrow> (List.insert (GossipMessageID m) obs, None))"

text \<open>
  Modelled from the spec: \<^verbatim>\<open>GossipIsObserved\<close> of the same observer tests whether the
  message's identifier is in the ledger; a nil message is not.
\<close>

definition GossipIsObserved :: "gossip_ledger \<Rightarrow> pb_GossipMessage option \<Rightarrow> bool" where
  "GossipIsObserved obs g =
     (case g of
        None \<Rightarrow> False
      | Some m \<Rightarrow> GossipMessageID m \<in> set obs)"

subsection \<open>State and environment of the core\<close>

datatype log_entry =
    Errorln error
  | Warnln error
  | Infof string
  | Printf_unknown_gossip_type msg_type

text \<open>
  The fields of the core that the handlers below read or write. \<open>applyPolicyCalls\<close> lists the
  arguments of the calls of \<^verbatim>\<open>applyPolicy\<close>, in order: the method changes nothing else, and
  claims about how often it is invoked are statements about this list. \<open>logged\<close> is what the
  handlers wrote to the logger and to standard output.
\<close>

record DirectoryServerCore =
  config :: Config
  ifritClientId :: string
  dsLookupService :: lookup_table
  memManager :: MembershipManagerUnit
  gossipObs :: gossip_ledger
  applyPolicyCalls :: "pb_Policy option list"
  logged :: "log_entry list"

text \<open>
  What a handler takes from outside the program: \<^verbatim>\<open>proto.Unmarshal\<close> and \<^verbatim>\<open>proto.Marshal\<close> on
  message envelopes, \<^verbatim>\<open>ifritClient.Sign\<close> and \<^verbatim>\<open>ifritClient.VerifySignature\<close>, the error of the
  lookup insert, if any, and the checkout manager's \<^verbatim>\<open>DatasetIsCheckedOut\<close>.
\<close>

record core_env =
  protoUnmarshal :: "bytes \<Rightarrow> error + pb_Message"
  protoMarshal :: "pb_Message \<Rightarrow> error + bytes"
  Sign :: "bytes \<Rightarrow> error + bytes \<times> bytes"
  VerifySignature :: "bytes \<Rightarrow> bytes \<Rightarrow> bytes \<Rightarrow> string \<Rightarrow> bool"
  insertLookupErr :: "error option"
  DatasetIsCheckedOut :: "string \<Rightarrow> bool"

definition ErrDatasetLookupInsert :: error where
  "ErrDatasetLookupInsert = Err ''Inserting into dataset lookup collection failed''"

definition ErrUnknownMessageType :: error where
  "ErrUnknownMessageType = Err ''Unknown message type''"

definition ErrAddNetworkNode :: error where
  "ErrAddNetworkNode = Err ''Adding network node failed''"

definition log_core :: "DirectoryServerCore \<Rightarrow> log_entry \<Rightarrow> DirectoryServerCore" where
  "log_core d e = d\<lparr>logged := logged d @ [e]\<rparr>"

subsection \<open>Signature verification\<close>

text \<open>
  The first statement of \<^verbatim>\<open>verifyMessageSignature\<close> is \<^verbatim>\<open>return nil\<close>: for every message the
  method returns nil and leaves the message as it is.
\<close>

definition verifyMessageSignature :: "core_env \<Rightarrow> pb_Message \<Rightarrow> error option" where
  "verifyMessageSignature env msg = None"

text \<open>
  The statements of \<^verbatim>\<open>verifyMessageSignature\<close> after that return, which never run: the check
  its comment describes ("Returns a non-nil error if the signature is not valid"). The
  signature is taken off, the rest is marshalled and verified against the sender's id.
\<close>

definition verifyMessageSignature_unreachable :: "core_env \<Rightarrow> pb_Message \<Rightarrow> error option" where
  "verifyMessageSignature_unreachable env msg =
     (let r = GetR (Signature msg);
          s = GetS (Signature msg)
      in case protoMarshal env (msg\<lparr>Signature := None\<rparr>) of
        Inl err \<Rightarrow> Some err
      | Inr data \<Rightarrow>
          if \<not> VerifySignature env r s data (string_of_bytes (GetId (Sender msg)))
          then Some (Err ''DirectoryServerCore could not securely verify the integrity of the message'')
          else None)"

subsection \<open>Direct messages\<close>

definition resolveDatasetIdentifiersDeltas ::
  "DirectoryServerCore \<Rightarrow> string list option \<Rightarrow> pb_Node option
     \<Rightarrow> DirectoryServerCore \<times> error option" where
  "resolveDatasetIdentifiersDeltas d newIdentifiers node =
     (if newIdentifiers = None then (d, Some (Err ''newIdentifiers is nil''))
      else if node = None then (d, Some (Err ''node is nil''))
      else (d, None))"

definition ok_message :: pb_Message where
  "ok_message =
     \<lparr>Type = MSG_TYPE_OK, Sender = None, StringValue = [], StringSlice = None,
      GossipMessage = None, Signature = None\<rparr>"

text \<open>The end of \<^verbatim>\<open>messageHandler\<close>, after the switch: the reply.\<close>

definition messageHandler_reply ::
  "core_env \<Rightarrow> DirectoryServerCore \<Rightarrow> DirectoryServerCore \<times> (error + bytes)" where
  "messageHandler_reply env d =
     (case protoMarshal env ok_message of
        Inl err \<Rightarrow> (log_core d (Errorln err), Inl err)
      | Inr resp \<Rightarrow> (d, Inr resp))"

definition messageHandler ::
  "core_env \<Rightarrow> DirectoryServerCore \<Rightarrow> bytes \<Rightarrow> DirectoryServerCore \<times> (error + bytes)" where
  "messageHandler env d data =
     (case protoUnmarshal env data of
        Inl err \<Rightarrow> (log_core d (Errorln err), Inl (Err []))
      | Inr msg \<Rightarrow>
          (case verifyMessageSignature env msg of
             Some err \<Rightarrow> (log_core d (Errorln err), Inl err)
           | None \<Rightarrow>
               (case Type msg of
                  MSG_TYPE_ADD_DATASET_IDENTIFIER \<Rightarrow>
                    (case InsertDatasetLookupEntry (insertLookupErr env) (dsLookupService d)
                            (StringValue msg) (GetName (Sender msg)) of
                       (t, Some err) \<Rightarrow>
                         (log_core (d\<lparr>dsLookupService := t\<rparr>) (Errorln err),
                          Inl ErrDatasetLookupInsert)
                     | (t, None) \<Rightarrow> messageHandler_reply env (d\<lparr>dsLookupService := t\<rparr>))
                | MSG_SYNCHRONIZE_DATASET_IDENTIFIERS \<Rightarrow>
                    (case resolveDatasetIdentifiersDeltas d (StringSlice msg) (Sender msg) of
                       (d', Some err) \<Rightarrow> (log_core d' (Errorln err), Inl err)
                     | (d', None) \<Rightarrow> messageHandler_reply env d')
                | _ \<Rightarrow>
                    (log_core d (Errorln (ErrUnexpectedMessageType (Type msg))),
                     Inl ErrUnknownMessageType))))"

subsection \<open>Handshake\<close>

definition Handshake ::
  "mem_env \<Rightarrow> DirectoryServerCore \<Rightarrow> pb_Node option
     \<Rightarrow> DirectoryServerCore \<times> (error + pb_HandshakeResponse)" where
  "Handshake env d node =
     (case node of
        None \<Rightarrow> (d, Inl (StatusInvalidArgument ''pb node is nil''))
      | Some n \<Rightarrow>
          (case AddNetworkNode env (memManager d) (Name n) node of
             (m', Some err) \<Rightarrow> (d\<lparr>memManager := m'\<rparr>, Inl err)
           | (m', None) \<Rightarrow>
               (log_core (d\<lparr>memManager := m'\<rparr>)
                  (Infof (''Added '' @ [CHR 0x27] @ Name n @ [CHR 0x27]
                     @ '' to map with Ifrit IP '' @ [CHR 0x27] @ IfritAddress n @ [CHR 0x27]
                     @ '' and HTTPS address '' @ [CHR 0x27] @ HttpsAddress n @ [CHR 0x27, CHR 0x0A])),
                Inr \<lparr>Ip = Hostname (config d) @ '':'' @ showInt (IfritTCPPort (config d)),
                     Resp_Id = bytes_of_string (ifritClientId d)\<rparr>)))"

subsection \<open>The other outbound message: the rollback request\<close>

text \<open>
  \<^verbatim>\<open>pbNode\<close> reads the clock (\<^verbatim>\<open>pbtime.Now()\<close>); the time is a parameter.
\<close>

definition pbNode :: "DirectoryServerCore \<Rightarrow> pb_Timestamp \<Rightarrow> pb_Node" where
  "pbNode d now =
     \<lparr>Name = Config_Name (config d),
      IfritAddress = Hostname (config d) @ '':'' @ showInt (IfritTCPPort (config d)),
      Node_Id = bytes_of_string (ifritClientId d), HttpsAddress = [], Port = 0,
      BootTime = Some now\<rparr>"

text \<open>
  \<^verbatim>\<open>rollbackCheckout\<close> up to \<^verbatim>\<open>d.ifritClient.SendTo(nodeAddr, data)\<close>: the bytes it sends. The
  envelope is marshalled, signed, given the signature and marshalled again. The wait for the
  response on a channel is not part of this function.
\<close>

definition rollbackCheckout_request ::
  "core_env \<Rightarrow> DirectoryServerCore \<Rightarrow> pb_Timestamp \<Rightarrow> string \<Rightarrow> error + bytes" where
  "rollbackCheckout_request env d now dataset =
     (let msg = \<lparr>Type = MSG_TYPE_ROLLBACK_CHECKOUT, Sender = Some (pbNode d now),
                 StringValue = dataset, StringSlice = None, GossipMessage = None,
                 Signature = None\<rparr>
      in case protoMarshal env msg of
        Inl err \<Rightarrow> Inl err
      | Inr data \<Rightarrow>
          (case Sign env data of
             Inl err \<Rightarrow> Inl err
           | Inr (r, s) \<Rightarrow> protoMarshal env (msg\<lparr>Signature := Some \<lparr>R = r, S = s\<rparr>\<rparr>)))"

subsection \<open>Gossip\<close>

definition applyPolicy ::
  "core_env \<Rightarrow> DirectoryServerCore \<Rightarrow> pb_Policy option \<Rightarrow> DirectoryServerCore \<times> error option" where
  "applyPolicy env d newPolicy =
     (let d1 = d\<lparr>applyPolicyCalls := applyPolicyCalls d @ [newPolicy]\<rparr> in
      case newPolicy of
        None \<Rightarrow> (d1, Some (Err ''Policy to be applied is nil''))
      | Some p \<Rightarrow>
          (let datasetId = DatasetIdentifier p in
           if DatasetIsCheckedOut env datasetId then (d1, None) else (d1, None)))"

text \<open>The \<^verbatim>\<open>for ... range gspMsg.GetGossipMessageBody()\<close> loop of \<^verbatim>\<open>processPolicyBatch\<close>.\<close>

fun processPolicyBatch_loop ::
  "core_env \<Rightarrow> DirectoryServerCore \<Rightarrow> pb_GossipMessageBody option list \<Rightarrow> DirectoryServerCore" where
  "processPolicyBatch_loop env d [] = d"
| "processPolicyBatch_loop env d (m # ms) =
     (case applyPolicy env d (GetPolicy m) of
        (d', Some err) \<Rightarrow> processPolicyBatch_loop env (log_core d' (Errorln err)) ms
      | (d', None) \<Rightarrow> processPolicyBatch_loop env d' ms)"

text \<open>A handler's \<^verbatim>\<open>([]byte, error)\<close> with nil bytes on success is \<open>Inr None\<close>.\<close>

definition processPolicyBatch ::
  "core_env \<Rightarrow> DirectoryServerCore \<Rightarrow> pb_Message option
     \<Rightarrow> DirectoryServerCore \<times> (error + bytes option)" where
  "processPolicyBatch env d msg =
     (case msg of
        None \<Rightarrow> (log_core d (Errorln (Err ''Pb message is nil'')), Inl (Err ''Pb message is nil''))
      | Some m \<Rightarrow>
          (case GossipMessage m of
             None \<Rightarrow>
               (log_core d (Errorln (Err ''Gossip message is nil'')),
                Inl (Err ''Gossip message is nil''))
           | Some gspMsg \<Rightarrow>
               (case GossipMessageBody gspMsg of
                  None \<Rightarrow>
                    (log_core d (Errorln (Err ''Gossip message body is nil'')),
                     Inl (Err ''Gossip message body is nil''))
                | Some body \<Rightarrow> (processPolicyBatch_loop env d body, Inr None))))"

definition gossipMessageHandler ::
  "core_env \<Rightarrow> DirectoryServerCore \<Rightarrow> bytes \<Rightarrow> DirectoryServerCore \<times> (error + bytes option)" where
  "gossipMessageHandler env d data =
     (case protoUnmarshal env data of
        Inl err \<Rightarrow> (log_core d (Errorln err), Inl err)
      | Inr msg \<Rightarrow>
          (let d1 = log_core d (Infof (''Directory server got gossip message'' @ [CHR 0x0A]));
               d2 = (case verifyMessageSignature env msg of
                       Some err \<Rightarrow> log_core d1 (Warnln err)
                     | None \<Rightarrow> d1);
               d3 = (case InsertObservedGossip (gossipObs d2) (GossipMessage msg) of
                       (obs, Some err) \<Rightarrow> log_core (d2\<lparr>gossipObs := obs\<rparr>) (Errorln err)
                     | (obs, None) \<Rightarrow> d2\<lparr>gossipObs := obs\<rparr>)
           in case Type msg of
             MSG_TYPE_PROBE \<Rightarrow> (d3, Inr None)
           | MSG_TYPE_POLICY_STORE_UPDATE \<Rightarrow> processPolicyBatch env d3 (Some msg)
           | _ \<Rightarrow> (log_core d3 (Printf_unknown_gossip_type (Type msg)), Inr None)))"

section \<open>Concrete inputs\<close>

text \<open>
  The inputs at which the handlers are evaluated below. The library functions of the
  environments are small stand-ins: a wire format that knows the handful of envelopes
  listed in \<open>test_wire\<close>, and a signature scheme in which the component \<open>R\<close> of a valid
  signature is the marshalled unsigned envelope itself.
\<close>

definition test_node :: pb_Node where
  "test_node =
     \<lparr>Name = ''N'', IfritAddress = ''10.0.0.7:8000'', Node_Id = [1, 2, 3],
      HttpsAddress = ''10.0.0.7:8443'', Port = 8443,
      BootTime = Some \<lparr>Seconds = 1600000000, Nanos = 0\<rparr>\<rparr>"

definition test_node_again :: pb_Node where
  "test_node_again =
     \<lparr>Name = ''N'', IfritAddress = ''10.0.0.9:8000'', Node_Id = [4, 5, 6],
      HttpsAddress = ''10.0.0.9:8443'', Port = 9443,
      BootTime = Some \<lparr>Seconds = 1700000000, Nanos = 0\<rparr>\<rparr>"

definition test_add_unsigned :: pb_Message where
  "test_add_unsigned =
     \<lparr>Type = MSG_TYPE_ADD_DATASET_IDENTIFIER, Sender = Some test_node, StringValue = ''d1'',
      StringSlice = None, GossipMessage = None, Signature = None\<rparr>"

definition test_add_signed :: pb_Message where
  "test_add_signed = test_add_unsigned\<lparr>Signature := Some \<lparr>R = [10], S = []\<rparr>\<rparr>"

text \<open>The signed envelope with its payload changed after signing.\<close>

definition test_add_tampered :: pb_Message where
  "test_add_tampered = test_add_signed\<lparr>StringValue := ''evil''\<rparr>"

definition test_sync :: pb_Message where
  "test_sync =
     \<lparr>Type = MSG_SYNCHRONIZE_DATASET_IDENTIFIERS, Sender = Some test_node, StringValue = [],
      StringSlice = Some [''a'', ''b'', ''c''], GossipMessage = None, Signature = None\<rparr>"

definition test_policy :: pb_Policy where
  "test_policy = \<lparr>DatasetIdentifier = ''d1'', Decision = True\<rparr>"

definition test_gossip :: pb_GossipMessage where
  "test_gossip =
     \<lparr>GossipMessageID = ''g1'', GossipMessageBody = Some [Some \<lparr>Policy = Some test_policy\<rparr>]\<rparr>"

definition test_policy_update :: pb_Message where
  "test_policy_update =
     \<lparr>Type = MSG_TYPE_POLICY_STORE_UPDATE, Sender = Some test_node, StringValue = [],
      StringSlice = None, GossipMessage = Some test_gossip, Signature = None\<rparr>"

definition test_rollback_unsigned :: pb_Message where
  "test_rollback_unsigned =
     \<lparr>Type = MSG_TYPE_ROLLBACK_CHECKOUT,
      Sender = Some \<lparr>Name = ''directory'', IfritAddress = ''127.0.1.1:5000'',
                     Node_Id = bytes_of_string ''directory-id'', HttpsAddress = [], Port = 0,
                     BootTime = Some \<lparr>Seconds = 1700000000, Nanos = 0\<rparr>\<rparr>,
      StringValue = ''d1'', StringSlice = None, GossipMessage = None, Signature = None\<rparr>"

definition test_wire :: "(bytes \<times> pb_Message) list" where
  "test_wire =
     [([0], ok_message),
      ([10], test_add_unsigned),
      ([11], test_add_tampered\<lparr>Signature := None\<rparr>),
      ([20], test_add_signed),
      ([21], test_add_tampered),
      ([30], test_sync),
      ([40], test_policy_update),
      ([50], test_rollback_unsigned),
      ([51], test_rollback_unsigned\<lparr>Signature := Some \<lparr>R = [50], S = []\<rparr>\<rparr>)]"

definition test_protoUnmarshal :: "bytes \<Rightarrow> error + pb_Message" where
  "test_protoUnmarshal data =
     (case map_of test_wire data of
        None \<Rightarrow> Inl (Err ''proto: cannot parse invalid wire-format data'')
      | Some m \<Rightarrow> Inr m)"

definition test_protoMarshal :: "pb_Message \<Rightarrow> error + bytes" where
  "test_protoMarshal m =
     (case map_of (map (\<lambda>(b, x). (x, b)) test_wire) m of
        None \<Rightarrow> Inl (Err ''proto: message outside the test wire format'')
      | Some b \<Rightarrow> Inr b)"

definition test_core_env :: core_env where
  "test_core_env =
     \<lparr>protoUnmarshal = test_protoUnmarshal, protoMarshal = test_protoMarshal,
      Sign = (\<lambda>data. Inr (data, [])),
      VerifySignature = (\<lambda>r s data id. r = data), insertLookupErr = None,
      DatasetIsCheckedOut = (\<lambda>datasetId. False)\<rparr>"

definition test_config :: Config where
  "test_config =
     \<lparr>Config_Name = ''directory'', HTTPPort = 8080, GRPCPort = 8081, SQLConnectionString = ''db'',
      Hostname = ''127.0.1.1'', IfritCryptoUnitWorkingDirectory = ''crypto'',
      IfritTCPPort = 5000, IfritUDPPort = 6000\<rparr>"

text \<open>
  A directory whose lookup table holds \<open>a\<close>, \<open>b\<close>, \<open>c\<close> and the stale \<open>x\<close> for node \<open>N\<close>, and \<open>y\<close>
  for another node.
\<close>

definition test_core :: DirectoryServerCore where
  "test_core =
     \<lparr>config = test_config, ifritClientId = ''directory-id'',
      dsLookupService =
        [''a'' \<mapsto> ''N'', ''b'' \<mapsto> ''N'', ''c'' \<mapsto> ''N'', ''x'' \<mapsto> ''N'', ''y'' \<mapsto> ''M''],
      memManager = \<lparr>pool = [], memCache = Map.empty\<rparr>,
      gossipObs = [], applyPolicyCalls = [], logged = []\<rparr>"

definition test_mem_env :: mem_env where
  "test_mem_env =
     \<lparr>pg = \<lparr>execErr = None, formatRFC1123Z =
               (\<lambda>t. if Seconds t = 1600000000 then ''Sun, 13 Sep 2020 12:26:40 +0000''
                    else ''Tue, 14 Nov 2023 22:13:20 +0000'')\<rparr>,
      memCacheErr = None\<rparr>"

definition test_lookup_env :: lookup_env where
  "test_lookup_env =
     \<lparr>redisExistsErr = None, redisSetErr = None,
      protoMarshalNode = (\<lambda>n. case n of None \<Rightarrow> Inl (Err ''proto: Marshal called with nil'')
                                 | Some x \<Rightarrow> Inr (bytes_of_string (Name x))),
      dbDatasetNodeExists = (\<lambda>k. k = ''d1'' \<or> k = []),
      dbSelectDatasetNode = (\<lambda>k. if k = ''d1'' \<or> k = [] then Some test_node else None),
      dbInsertDatasetNode = (\<lambda>k n. None)\<rparr>"

definition test_lookup_service :: DatasetLookupService where
  "test_lookup_service = \<lparr>redisClient = Some Map.empty, calls = []\<rparr>"

section \<open>The node table: delete and upsert\<close>

lemma sql_delete_node_rows_zero:
  "snd (sql_delete_node k t) = 0 \<longleftrightarrow> k \<notin> set (map node_name t)"
  by (auto simp: sql_delete_node_def filter_empty_conv)

lemma sql_delete_node_absent:
  "k \<notin> set (map node_name t) \<Longrightarrow> sql_delete_node k t = (t, 0)"
  by (induction t) (auto simp: sql_delete_node_def)

text \<open>
  C7: when the store's delete affects zero rows (the key is absent from the table),
  \<^verbatim>\<open>dbDeleteNetworkNode\<close> returns a non-nil error and the table is as before; whenever the
  DELETE statement was run at all (non-empty id, no database failure) that error is
  "Could not delete node with id '...'". The zero-rows case is never a success.
\<close>

theorem dbDeleteNetworkNode_zero_rows:
  assumes "snd (sql_delete_node nodeId tbl) = 0"
  shows "(\<exists>err. dbDeleteNetworkNode env tbl nodeId = (tbl, Some err)) \<and>
         (nodeId \<noteq> [] \<and> execErr env = None \<longrightarrow>
            dbDeleteNetworkNode env tbl nodeId =
              (tbl, Some (Err (''Could not delete node with id '' @ [CHR 0x27] @ nodeId @ [CHR 0x27]))))"
proof -
  from assms have "nodeId \<notin> set (map node_name tbl)"
    by (simp add: sql_delete_node_rows_zero)
  then have "sql_delete_node nodeId tbl = (tbl, 0)"
    by (rule sql_delete_node_absent)
  then show ?thesis
    by (simp add: dbDeleteNetworkNode_def split: option.split)
qed

theorem dbDeleteNetworkNode_zero_rows_witness:
  "snd (sql_delete_node ''n2''
          [\<lparr>node_name = ''n1'', ip_address = ''a'', public_id = [], https_address = ''h'',
            port = 1, boottime = ''b''\<rparr>]) = 0 \<and>
   dbDeleteNetworkNode (pg test_mem_env)
     [\<lparr>node_name = ''n1'', ip_address = ''a'', public_id = [], https_address = ''h'',
       port = 1, boottime = ''b''\<rparr>] ''n2'' =
     ([\<lparr>node_name = ''n1'', ip_address = ''a'', public_id = [], https_address = ''h'',
        port = 1, boottime = ''b''\<rparr>],
      Some (Err (''Could not delete node with id '' @ [CHR 0x27] @ ''n2'' @ [CHR 0x27])))"
proof -
  let ?t = "[\<lparr>node_name = ''n1'', ip_address = ''a'', public_id = [], https_address = ''h'',
              port = 1, boottime = ''b''\<rparr>]"
  have z: "snd (sql_delete_node ''n2'' ?t) = 0"
    by (simp add: sql_delete_node_def)
  have e: "execErr (pg test_mem_env) = None"
    by (simp add: test_mem_env_def)
  from dbDeleteNetworkNode_zero_rows [OF z, of "pg test_mem_env"] e z show ?thesis
    by simp
qed

lemma filter_absent_name:
  "k \<notin> set (map node_name t) \<Longrightarrow> filter (\<lambda>r. node_name r = k) t = []"
  by (induction t) auto

lemma filter_overwritten_name:
  "distinct (map node_name t) \<Longrightarrow> node_name new \<in> set (map node_name t) \<Longrightarrow>
   filter (\<lambda>r. node_name r = node_name new)
     (map (\<lambda>r. if node_name r = node_name new then new else r) t) = [new]"
proof (induction t)
  case Nil
  then show ?case by simp
next
  case (Cons a t)
  show ?case
  proof (cases "node_name a = node_name new")
    case True
    with Cons.prems have "node_name new \<notin> set (map node_name t)" by auto
    then have "map (\<lambda>r. if node_name r = node_name new then new else r) t = t"
      by (induction t) auto
    with True \<open>node_name new \<notin> set (map node_name t)\<close> show ?thesis
      by (simp add: filter_absent_name)
  next
    case False
    with Cons show ?thesis by auto
  qed
qed

lemma sql_upsert_node_filter:
  "distinct (map node_name t) \<Longrightarrow>
   filter (\<lambda>r. node_name r = node_name new) (sql_upsert_node new t) = [new]"
  by (cases "node_name new \<in> set (map node_name t)")
     (simp_all add: sql_upsert_node_def filter_overwritten_name filter_absent_name)

lemma sql_upsert_node_names:
  "node_name new \<in> set (map node_name t) \<Longrightarrow>
   map node_name (sql_upsert_node new t) = map node_name t"
  by (auto simp: sql_upsert_node_def)

lemma sql_upsert_node_unique:
  "unique_node_names t \<Longrightarrow> unique_node_names (sql_upsert_node new t)"
  unfolding unique_node_names_def
  by (cases "node_name new \<in> set (map node_name t)")
     (auto simp: sql_upsert_node_names, auto simp: sql_upsert_node_def)

lemma dbInsertNetworkNode_ok:
  "dbInsertNetworkNode env tbl nodeId node = (tbl', None) \<Longrightarrow>
   nodeId \<noteq> [] \<and> execErr env = None \<and>
   (\<exists>n. node = Some n \<and>
      tbl' = sql_upsert_node
        \<lparr>node_name = nodeId, ip_address = IfritAddress n, public_id = Node_Id n,
         https_address = HttpsAddress n, port = Port n,
         boottime = formatRFC1123Z env (AsTime (BootTime n))\<rparr> tbl)"
  by (auto simp: dbInsertNetworkNode_def Let_def split: if_splits option.splits)

lemma Handshake_ok:
  "Handshake env d (Some n) = (d', Inr resp) \<Longrightarrow>
   Name n \<noteq> [] \<and> execErr (pg env) = None \<and>
   pool (memManager d') = sql_upsert_node
        \<lparr>node_name = Name n, ip_address = IfritAddress n, public_id = Node_Id n,
         https_address = HttpsAddress n, port = Port n,
         boottime = formatRFC1123Z (pg env) (AsTime (BootTime n))\<rparr> (pool (memManager d))"
  by (auto simp: Handshake_def AddNetworkNode_def log_core_def Let_def
           split: option.splits prod.splits dest!: dbInsertNetworkNode_ok)

lemma Handshake_succeeds:
  "Name n \<noteq> [] \<Longrightarrow> execErr (pg env) = None \<Longrightarrow> \<exists>resp. snd (Handshake env d (Some n)) = Inr resp"
  by (simp add: Handshake_def AddNetworkNode_def dbInsertNetworkNode_def Let_def log_core_def
           split: option.split prod.split)

text \<open>
  C9: two successful handshakes for the same node name, the second after the first, leave
  exactly one row with that name in the node table, and its columns (address, public
  identity, HTTPS address, port, boot time) are those of the second node record: an upsert,
  not a duplicate. The table keeps its names distinct.
\<close>

theorem Handshake_twice_one_record:
  assumes uniq: "unique_node_names (pool (memManager d))"
      and same: "Name n1 = Name n2"
      and h1: "Handshake env1 d (Some n1) = (d1, Inr resp1)"
      and h2: "Handshake env2 d1 (Some n2) = (d2, Inr resp2)"
  shows "filter (\<lambda>r. node_name r = Name n2) (pool (memManager d2)) =
           [\<lparr>node_name = Name n2, ip_address = IfritAddress n2, public_id = Node_Id n2,
             https_address = HttpsAddress n2, port = Port n2,
             boottime = formatRFC1123Z (pg env2) (AsTime (BootTime n2))\<rparr>] \<and>
         unique_node_names (pool (memManager d2))"
proof -
  let ?row1 = "\<lparr>node_name = Name n1, ip_address = IfritAddress n1, public_id = Node_Id n1,
                https_address = HttpsAddress n1, port = Port n1,
                boottime = formatRFC1123Z (pg env1) (AsTime (BootTime n1))\<rparr>"
  let ?row2 = "\<lparr>node_name = Name n2, ip_address = IfritAddress n2, public_id = Node_Id n2,
                https_address = HttpsAddress n2, port = Port n2,
                boottime = formatRFC1123Z (pg env2) (AsTime (BootTime n2))\<rparr>"
  from Handshake_ok [OF h1]
  have p1: "pool (memManager d1) = sql_upsert_node ?row1 (pool (memManager d))" by simp
  from Handshake_ok [OF h2]
  have p2: "pool (memManager d2) = sql_upsert_node ?row2 (pool (memManager d1))" by simp
  from uniq p1 have u1: "unique_node_names (pool (memManager d1))"
    by (simp add: sql_upsert_node_unique)
  then have u2: "unique_node_names (pool (memManager d2))"
    by (simp add: p2 sql_upsert_node_unique)
  from u1 have "distinct (map node_name (pool (memManager d1)))"
    by (simp add: unique_node_names_def)
  from sql_upsert_node_filter [OF this, of ?row2] p2 u2 show ?thesis
    by simp
qed

theorem Handshake_twice_one_record_witness:
  "unique_node_names (pool (memManager test_core)) \<and>
   Name test_node = Name test_node_again \<and>
   filter (\<lambda>r. node_name r = ''N'')
     (pool (memManager (fst (Handshake test_mem_env
        (fst (Handshake test_mem_env test_core (Some test_node))) (Some test_node_again))))) =
     [\<lparr>node_name = ''N'', ip_address = ''10.0.0.9:8000'', public_id = [4, 5, 6],
       https_address = ''10.0.0.9:8443'', port = 9443,
       boottime = ''Tue, 14 Nov 2023 22:13:20 +0000''\<rparr>]"
proof -
  let ?d1 = "fst (Handshake test_mem_env test_core (Some test_node))"
  let ?d2 = "fst (Handshake test_mem_env ?d1 (Some test_node_again))"
  have u: "unique_node_names (pool (memManager test_core))"
    by (simp add: test_core_def unique_node_names_def)
  have s: "Name test_node = Name test_node_again"
    by (simp add: test_node_def test_node_again_def)
  have e: "execErr (pg test_mem_env) = None"
    by (simp add: test_mem_env_def)
  obtain r1 where "snd (Handshake test_mem_env test_core (Some test_node)) = Inr r1"
    using Handshake_succeeds [of test_node test_mem_env test_core] e
    by (auto simp: test_node_def)
  then have h1: "Handshake test_mem_env test_core (Some test_node) = (?d1, Inr r1)"
    by (simp add: prod_eq_iff)
  obtain r2 where "snd (Handshake test_mem_env ?d1 (Some test_node_again)) = Inr r2"
    using Handshake_succeeds [of test_node_again test_mem_env ?d1] e
    by (auto simp: test_node_again_def)
  then have h2: "Handshake test_mem_env ?d1 (Some test_node_again) = (?d2, Inr r2)"
    by (simp add: prod_eq_iff)
  from Handshake_twice_one_record [OF u s h1 h2] u s show ?thesis
    by (simp add: test_node_again_def test_mem_env_def AsTime_def)
qed

section \<open>The dataset lookup service: cache and store\<close>

text \<open>
  C10: for the empty dataset identifier \<^verbatim>\<open>DatasetNodeExists\<close> returns false at once. The only
  call it makes is the one to the logger: neither Redis nor the store is consulted, the
  cache is as before, and the boolean result carries no error.
\<close>

theorem DatasetNodeExists_empty_identifier:
  "DatasetNodeExists env d [] =
     (d\<lparr>calls := calls d @ [LogError (Err ''Dataset identifier must not be empty'')]\<rparr>, False)"
  by (simp add: DatasetNodeExists_def record_call_def)

text \<open>
  C6: \<^verbatim>\<open>InsertDatasetNode\<close> returns exactly the error of the store write
  \<^verbatim>\<open>dbInsertDatasetNode\<close> (nil when the store write succeeds). Whatever the cache write does
  (the marshalling or the Redis \<^verbatim>\<open>SET\<close> may fail with any error) the result is the same, and
  the store write is always the last call made.
\<close>

theorem InsertDatasetNode_returns_store_error:
  "snd (InsertDatasetNode env d datasetId node) = dbInsertDatasetNode env datasetId node \<and>
   snd (InsertDatasetNode (env\<lparr>redisSetErr := e, protoMarshalNode := mf\<rparr>) d datasetId node) =
     dbInsertDatasetNode env datasetId node \<and>
   (\<exists>cs. calls (fst (InsertDatasetNode env d datasetId node)) =
      calls d @ cs @ [DbInsertDatasetNode datasetId node])"
  by (simp add: InsertDatasetNode_def cacheInsertDatasetNode_def redis_Set_def record_call_def Let_def
           split: option.split sum.split prod.split)

lemma DatasetNodeExists_first_call:
  assumes "datasetId \<noteq> []" and "redisClient d = Some rc"
  shows "\<exists>cs. calls (fst (DatasetNodeExists env d datasetId)) = calls d @ RedisExists datasetId # cs"
  using assms
  by (simp add: DatasetNodeExists_def DatasetNodeExists_store_def cacheDatasetNodeExists_def
        redis_Exists_def redis_Set_def record_call_def Let_def
        split: option.split sum.split prod.split)

lemma DatasetNodeExists_hit:
  assumes "datasetId \<noteq> []" and "redisClient d = Some rc"
      and "redisExistsErr env = None" and "rc datasetId \<noteq> None"
  shows "DatasetNodeExists env d datasetId = (d\<lparr>calls := calls d @ [RedisExists datasetId]\<rparr>, True)"
  using assms
  by (auto simp: DatasetNodeExists_def cacheDatasetNodeExists_def redis_Exists_def record_call_def
        Let_def)

lemma DatasetNodeExists_fallthrough:
  assumes "datasetId \<noteq> []" and "redisClient d = Some rc"
      and "redisExistsErr env \<noteq> None \<or> rc datasetId = None"
  shows "snd (DatasetNodeExists env d datasetId) = dbDatasetNodeExists env datasetId \<and>
         (\<exists>cs. calls (fst (DatasetNodeExists env d datasetId)) =
            calls d @ RedisExists datasetId # (case redisExistsErr env of None \<Rightarrow> [] | Some e \<Rightarrow> [LogError e])
              @ DbDatasetNodeExists datasetId # cs)"
  using assms
  by (auto simp: DatasetNodeExists_def DatasetNodeExists_store_def cacheDatasetNodeExists_def
        redis_Exists_def redis_Set_def record_call_def Let_def
        split: option.split sum.split prod.split)

lemma DatasetNodeExists_repopulates:
  assumes "datasetId \<noteq> []" and "redisClient d = Some rc"
      and "redisExistsErr env \<noteq> None \<or> rc datasetId = None"
      and "dbDatasetNodeExists env datasetId"
      and "dbSelectDatasetNode env datasetId = Some node"
      and "protoMarshalNode env (Some node) = Inr nodeBytes"
  shows "snd (DatasetNodeExists env d datasetId) = True \<and>
         calls (fst (DatasetNodeExists env d datasetId)) =
            calls d @ RedisExists datasetId # (case redisExistsErr env of None \<Rightarrow> [] | Some e \<Rightarrow> [LogError e])
              @ [DbDatasetNodeExists datasetId, DbSelectDatasetNode datasetId,
                 RedisSet datasetId nodeBytes]
              @ (case redisSetErr env of None \<Rightarrow> [] | Some e \<Rightarrow> [LogError e]) \<and>
         redisClient (fst (DatasetNodeExists env d datasetId)) =
            (case redisSetErr env of None \<Rightarrow> Some (rc(datasetId \<mapsto> nodeBytes)) | Some e \<Rightarrow> Some rc)"
  using assms
  by (auto simp: DatasetNodeExists_def DatasetNodeExists_store_def cacheDatasetNodeExists_def
        redis_Exists_def redis_Set_def record_call_def Let_def
        split: option.split sum.split prod.split)

text \<open>
  C5, as the claim states it, fails at the empty identifier: after
  \<^verbatim>\<open>InsertDatasetNode("", node)\<close> the cache holds the key \<^verbatim>\<open>""\<close>, Redis answers without error
  and the store knows the key too, yet \<^verbatim>\<open>DatasetNodeExists("")\<close> is false, because of the
  guard at the top of the method.
\<close>

theorem DatasetNodeExists_empty_key_counterexample:
  "snd (InsertDatasetNode test_lookup_env test_lookup_service [] (Some test_node)) = None \<and>
   redisClient (fst (InsertDatasetNode test_lookup_env test_lookup_service [] (Some test_node))) =
     Some [[] \<mapsto> bytes_of_string ''N''] \<and>
   redisExistsErr test_lookup_env = None \<and>
   dbDatasetNodeExists test_lookup_env [] \<and>
   \<not> snd (DatasetNodeExists test_lookup_env
            (fst (InsertDatasetNode test_lookup_env test_lookup_service [] (Some test_node))) [])"
  by (simp add: InsertDatasetNode_def cacheInsertDatasetNode_def redis_Set_def record_call_def
        DatasetNodeExists_def test_lookup_env_def test_lookup_service_def test_node_def Let_def)

text \<open>
  C5, amended: for every non-empty dataset identifier, with a cache configured,
  \<^verbatim>\<open>DatasetNodeExists\<close> asks the cache first; on a cache hit it returns true with no other
  call; on a cache miss or a cache error (which is logged, never returned) it asks the
  store, and the result is the store's answer; and when the store has the key, returns its
  node and the node marshals, the cache write for the key is issued before returning true:
  the cache then holds the key when Redis accepts the write, and otherwise is as before with
  the failure logged.
\<close>

theorem DatasetNodeExists_cache_then_store:
  assumes "datasetId \<noteq> []" and "redisClient d = Some rc"
  shows "(\<exists>cs. calls (fst (DatasetNodeExists env d datasetId)) =
            calls d @ RedisExists datasetId # cs) \<and>
         (redisExistsErr env = None \<and> rc datasetId \<noteq> None \<longrightarrow>
            DatasetNodeExists env d datasetId =
              (d\<lparr>calls := calls d @ [RedisExists datasetId]\<rparr>, True)) \<and>
         (redisExistsErr env \<noteq> None \<or> rc datasetId = None \<longrightarrow>
            snd (DatasetNodeExists env d datasetId) = dbDatasetNodeExists env datasetId \<and>
            (\<exists>cs. calls (fst (DatasetNodeExists env d datasetId)) =
               calls d @ RedisExists datasetId
                 # (case redisExistsErr env of None \<Rightarrow> [] | Some e \<Rightarrow> [LogError e])
                 @ DbDatasetNodeExists datasetId # cs)) \<and>
         ((redisExistsErr env \<noteq> None \<or> rc datasetId = None) \<and>
          dbDatasetNodeExists env datasetId \<and>
          dbSelectDatasetNode env datasetId = Some node \<and>
          protoMarshalNode env (Some node) = Inr nodeBytes \<longrightarrow>
            snd (DatasetNodeExists env d datasetId) = True \<and>
            calls (fst (DatasetNodeExists env d datasetId)) =
              calls d @ RedisExists datasetId
                # (case redisExistsErr env of None \<Rightarrow> [] | Some e \<Rightarrow> [LogError e])
                @ [DbDatasetNodeExists datasetId, DbSelectDatasetNode datasetId,
                   RedisSet datasetId nodeBytes]
                @ (case redisSetErr env of None \<Rightarrow> [] | Some e \<Rightarrow> [LogError e]) \<and>
            redisClient (fst (DatasetNodeExists env d datasetId)) =
              (case redisSetErr env of
                 None \<Rightarrow> Some (rc(datasetId \<mapsto> nodeBytes))
               | Some e \<Rightarrow> Some rc))"
proof (intro conjI impI)
  show "\<exists>cs. calls (fst (DatasetNodeExists env d datasetId)) =
          calls d @ RedisExists datasetId # cs"
    using assms by (rule DatasetNodeExists_first_call)
next
  assume "redisExistsErr env = None \<and> rc datasetId \<noteq> None"
  with assms show "DatasetNodeExists env d datasetId =
      (d\<lparr>calls := calls d @ [RedisExists datasetId]\<rparr>, True)"
    by (simp add: DatasetNodeExists_hit)
next
  assume m: "redisExistsErr env \<noteq> None \<or> rc datasetId = None"
  from DatasetNodeExists_fallthrough [OF assms m]
  show "snd (DatasetNodeExists env d datasetId) = dbDatasetNodeExists env datasetId"
    by simp
next
  assume m: "redisExistsErr env \<noteq> None \<or> rc datasetId = None"
  from DatasetNodeExists_fallthrough [OF assms m]
  show "\<exists>cs. calls (fst (DatasetNodeExists env d datasetId)) =
          calls d @ RedisExists datasetId
            # (case redisExistsErr env of None \<Rightarrow> [] | Some e \<Rightarrow> [LogError e])
            @ DbDatasetNodeExists datasetId # cs"
    by simp
next
  assume h: "(redisExistsErr env \<noteq> None \<or> rc datasetId = None) \<and>
          dbDatasetNodeExists env datasetId \<and>
          dbSelectDatasetNode env datasetId = Some node \<and>
          protoMarshalNode env (Some node) = Inr nodeBytes"
  then have r: "snd (DatasetNodeExists env d datasetId) = True \<and>
         calls (fst (DatasetNodeExists env d datasetId)) =
            calls d @ RedisExists datasetId # (case redisExistsErr env of None \<Rightarrow> [] | Some e \<Rightarrow> [LogError e])
              @ [DbDatasetNodeExists datasetId, DbSelectDatasetNode datasetId,
                 RedisSet datasetId nodeBytes]
              @ (case redisSetErr env of None \<Rightarrow> [] | Some e \<Rightarrow> [LogError e]) \<and>
         redisClient (fst (DatasetNodeExists env d datasetId)) =
            (case redisSetErr env of None \<Rightarrow> Some (rc(datasetId \<mapsto> nodeBytes)) | Some e \<Rightarrow> Some rc)"
    using DatasetNodeExists_repopulates [OF assms, of env node nodeBytes] by blast
  from r show "snd (DatasetNodeExists env d datasetId) = True" by simp
  from r show "calls (fst (DatasetNodeExists env d datasetId)) =
              calls d @ RedisExists datasetId
                # (case redisExistsErr env of None \<Rightarrow> [] | Some e \<Rightarrow> [LogError e])
                @ [DbDatasetNodeExists datasetId, DbSelectDatasetNode datasetId,
                   RedisSet datasetId nodeBytes]
                @ (case redisSetErr env of None \<Rightarrow> [] | Some e \<Rightarrow> [LogError e])" by simp
  from r show "redisClient (fst (DatasetNodeExists env d datasetId)) =
              (case redisSetErr env of
                 None \<Rightarrow> Some (rc(datasetId \<mapsto> nodeBytes))
               | Some e \<Rightarrow> Some rc)" by simp
qed

theorem DatasetNodeExists_cache_then_store_witness:
  "''d1'' \<noteq> [] \<and> redisClient test_lookup_service = Some Map.empty \<and>
   snd (DatasetNodeExists test_lookup_env test_lookup_service ''d1'') = True \<and>
   calls (fst (DatasetNodeExists test_lookup_env test_lookup_service ''d1'')) =
     [RedisExists ''d1'', DbDatasetNodeExists ''d1'', DbSelectDatasetNode ''d1'',
      RedisSet ''d1'' (bytes_of_string ''N'')] \<and>
   redisClient (fst (DatasetNodeExists test_lookup_env test_lookup_service ''d1'')) =
     Some [''d1'' \<mapsto> bytes_of_string ''N'']"
proof -
  have k: "''d1'' \<noteq> []" by simp
  have c: "redisClient test_lookup_service = Some Map.empty"
    by (simp add: test_lookup_service_def)
  have e: "redisExistsErr test_lookup_env = None" "redisSetErr test_lookup_env = None"
    "dbDatasetNodeExists test_lookup_env ''d1''"
    "dbSelectDatasetNode test_lookup_env ''d1'' = Some test_node"
    "protoMarshalNode test_lookup_env (Some test_node) = Inr (bytes_of_string ''N'')"
    by (simp_all add: test_lookup_env_def test_node_def)
  have s: "calls test_lookup_service = []"
    by (simp add: test_lookup_service_def)
  from DatasetNodeExists_cache_then_store
         [OF k c, of test_lookup_env test_node "bytes_of_string ''N''"] e k c s
  show ?thesis by simp
qed

section \<open>Gossip: the policy batch\<close>

lemma processPolicyBatch_loop_calls:
  "applyPolicyCalls (processPolicyBatch_loop env d body) = applyPolicyCalls d @ map GetPolicy body"
  by (induction body arbitrary: d)
     (auto simp: applyPolicy_def log_core_def Let_def split: option.split)

lemma processPolicyBatch_loop_logged:
  "logged (processPolicyBatch_loop env d body) =
     logged d @ map (\<lambda>m. Errorln (Err ''Policy to be applied is nil''))
                  (filter (\<lambda>m. GetPolicy m = None) body)"
  by (induction body arbitrary: d)
     (auto simp: applyPolicy_def log_core_def Let_def split: option.split)

text \<open>
  C8: for a gossip message that carries a policy batch, \<^verbatim>\<open>processPolicyBatch\<close> passes every
  entry of the batch to \<^verbatim>\<open>applyPolicy\<close>, in order, and returns no error: an entry for which
  \<^verbatim>\<open>applyPolicy\<close> fails (a nil policy) is logged, and the entries after it are still applied.
\<close>



theorem processPolicyBatch_applies_every_policy:
  assumes "GossipMessage m = Some g" and "GossipMessageBody g = Some body"
  shows "snd (processPolicyBatch env d (Some m)) = Inr None \<and>
         applyPolicyCalls (fst (processPolicyBatch env d (Some m))) =
           applyPolicyCalls d @ map GetPolicy body \<and>
         logged (fst (processPolicyBatch env d (Some m))) =
           logged d @ map (\<lambda>m. Errorln (Err ''Policy to be applied is nil''))
                        (filter (\<lambda>m. GetPolicy m = None) body)"
  using assms
  by (simp add: processPolicyBatch_def processPolicyBatch_loop_calls processPolicyBatch_loop_logged)

theorem processPolicyBatch_applies_every_policy_witness:
  "GossipMessage (test_policy_update\<lparr>GossipMessage :=
       Some (test_gossip\<lparr>GossipMessageBody :=
          Some [Some \<lparr>Policy = None\<rparr>, None, Some \<lparr>Policy = Some test_policy\<rparr>]\<rparr>)\<rparr>) =
     Some (test_gossip\<lparr>GossipMessageBody :=
          Some [Some \<lparr>Policy = None\<rparr>, None, Some \<lparr>Policy = Some test_policy\<rparr>]\<rparr>) \<and>
   GossipMessageBody (test_gossip\<lparr>GossipMessageBody :=
          Some [Some \<lparr>Policy = None\<rparr>, None, Some \<lparr>Policy = Some test_policy\<rparr>]\<rparr>) =
     Some [Some \<lparr>Policy = None\<rparr>, None, Some \<lparr>Policy = Some test_policy\<rparr>] \<and>
   snd (processPolicyBatch test_core_env test_core
          (Some (test_policy_update\<lparr>GossipMessage :=
             Some (test_gossip\<lparr>GossipMessageBody :=
                Some [Some \<lparr>Policy = None\<rparr>, None, Some \<lparr>Policy = Some test_policy\<rparr>]\<rparr>)\<rparr>))) =
     Inr None \<and>
   applyPolicyCalls (fst (processPolicyBatch test_core_env test_core
          (Some (test_policy_update\<lparr>GossipMessage :=
             Some (test_gossip\<lparr>GossipMessageBody :=
                Some [Some \<lparr>Policy = None\<rparr>, None, Some \<lparr>Policy = Some test_policy\<rparr>]\<rparr>)\<rparr>)))) =
     [None, None, Some test_policy]"
proof -
  let ?body = "[Some \<lparr>Policy = None\<rparr>, None, Some \<lparr>Policy = Some test_policy\<rparr>]"
  let ?g = "test_gossip\<lparr>GossipMessageBody := Some ?body\<rparr>"
  let ?m = "test_policy_update\<lparr>GossipMessage := Some ?g\<rparr>"
  have a: "GossipMessage ?m = Some ?g" by simp
  have b: "GossipMessageBody ?g = Some ?body" by simp
  have c: "applyPolicyCalls test_core = []" by (simp add: test_core_def)
  from processPolicyBatch_applies_every_policy [OF a b, of test_core_env test_core] a b c
  show ?thesis by (simp add: GetPolicy_def)
qed

section \<open>The direct-message handler at concrete envelopes\<close>

text \<open>The stand-in wire format and the fields of the envelopes, evaluated once.\<close>

lemmas test_msgs = ok_message_def test_add_unsigned_def test_add_tampered_def test_add_signed_def
  test_sync_def test_policy_update_def test_gossip_def test_policy_def test_node_def
  test_rollback_unsigned_def

lemma test_protoMarshal_ok: "protoMarshal test_core_env ok_message = Inr [0]"
  by (simp add: test_core_env_def test_protoMarshal_def test_wire_def test_msgs)

lemma test_protoUnmarshal_ok: "protoUnmarshal test_core_env [0] = Inr ok_message"
  by (simp add: test_core_env_def test_protoUnmarshal_def test_wire_def)

lemma test_protoUnmarshal_tampered: "protoUnmarshal test_core_env [21] = Inr test_add_tampered"
  by (simp add: test_core_env_def test_protoUnmarshal_def test_wire_def)

lemma test_protoUnmarshal_signed: "protoUnmarshal test_core_env [20] = Inr test_add_signed"
  by (simp add: test_core_env_def test_protoUnmarshal_def test_wire_def)

lemma test_protoUnmarshal_sync: "protoUnmarshal test_core_env [30] = Inr test_sync"
  by (simp add: test_core_env_def test_protoUnmarshal_def test_wire_def)

lemma test_protoUnmarshal_policy_update:
  "protoUnmarshal test_core_env [40] = Inr test_policy_update"
  by (simp add: test_core_env_def test_protoUnmarshal_def test_wire_def)

lemma test_protoMarshal_tampered_unsigned:
  "protoMarshal test_core_env (test_add_tampered\<lparr>Signature := None\<rparr>) = Inr [11]"
  by (simp add: test_core_env_def test_protoMarshal_def test_wire_def test_msgs)

lemma test_protoMarshal_signed_unsigned:
  "protoMarshal test_core_env (test_add_signed\<lparr>Signature := None\<rparr>) = Inr [10]"
  by (simp add: test_core_env_def test_protoMarshal_def test_wire_def test_msgs)

lemma test_add_tampered_fields:
  "Type test_add_tampered = MSG_TYPE_ADD_DATASET_IDENTIFIER"
  "StringValue test_add_tampered = ''evil''"
  "Sender test_add_tampered = Some test_node"
  "Signature test_add_tampered = Some \<lparr>R = [10], S = []\<rparr>"
  by (simp_all add: test_add_tampered_def test_add_signed_def test_add_unsigned_def)

lemma test_add_signed_fields:
  "Type test_add_signed = MSG_TYPE_ADD_DATASET_IDENTIFIER"
  "StringValue test_add_signed = ''d1''"
  "Sender test_add_signed = Some test_node"
  "Signature test_add_signed = Some \<lparr>R = [10], S = []\<rparr>"
  by (simp_all add: test_add_signed_def test_add_unsigned_def)

lemma test_sync_fields:
  "Type test_sync = MSG_SYNCHRONIZE_DATASET_IDENTIFIERS"
  "StringSlice test_sync = Some [''a'', ''b'', ''c'']"
  "Sender test_sync = Some test_node"
  by (simp_all add: test_sync_def)

lemma test_policy_update_fields:
  "Type test_policy_update = MSG_TYPE_POLICY_STORE_UPDATE"
  "GossipMessage test_policy_update = Some test_gossip"
  "GossipMessageBody test_gossip = Some [Some \<lparr>Policy = Some test_policy\<rparr>]"
  "GossipMessageID test_gossip = ''g1''"
  by (simp_all add: test_policy_update_def test_gossip_def)

lemma test_core_env_fields:
  "insertLookupErr test_core_env = None"
  "VerifySignature test_core_env = (\<lambda>r s data id. r = data)"
  by (simp_all add: test_core_env_def)

text \<open>No input of \<^verbatim>\<open>messageHandler\<close> reaches \<^verbatim>\<open>VerifySignature\<close>.\<close>

lemma messageHandler_never_verifies:
  "messageHandler (env\<lparr>VerifySignature := v\<rparr>) d data = messageHandler env d data"
  by (simp add: messageHandler_def messageHandler_reply_def verifyMessageSignature_def
        split: sum.split option.split msg_type.split prod.split)

text \<open>
  C1: a direct message whose signature does not verify is to be refused with an
  authentication error before the dispatch, with the lookup table and the membership table
  unchanged. Evaluated on the code: the envelope \<open>test_add_tampered\<close> is a signed
  add-dataset-identifier message whose payload was changed after signing; the check that
  \<^verbatim>\<open>verifyMessageSignature\<close> documents accepts the original and rejects the tampered one, yet
  \<^verbatim>\<open>messageHandler\<close> dispatches on it, inserts the lookup entry \<open>evil\<close> for node \<open>N\<close> and
  answers with the OK envelope.
\<close>

theorem messageHandler_accepts_tampered_message: 
  "protoUnmarshal test_core_env [21] = Inr test_add_tampered \<and>
   verifyMessageSignature_unreachable test_core_env test_add_signed = None \<and>
   verifyMessageSignature_unreachable test_core_env test_add_tampered =
     Some (Err ''DirectoryServerCore could not securely verify the integrity of the message'') \<and>
   dsLookupService test_core ''evil'' = None \<and>
   messageHandler test_core_env test_core [21] =
     (test_core\<lparr>dsLookupService := (dsLookupService test_core)(''evil'' \<mapsto> ''N'')\<rparr>, Inr [0])"
proof -
  have v0: "verifyMessageSignature_unreachable test_core_env test_add_signed = None"
    by (simp add: verifyMessageSignature_unreachable_def test_protoMarshal_signed_unsigned
          test_add_signed_fields test_core_env_fields GetR_def GetS_def)
  have v1: "verifyMessageSignature_unreachable test_core_env test_add_tampered =
     Some (Err ''DirectoryServerCore could not securely verify the integrity of the message'')"
    by (simp add: verifyMessageSignature_unreachable_def test_protoMarshal_tampered_unsigned
          test_add_tampered_fields test_core_env_fields GetR_def GetS_def)
  have t: "dsLookupService test_core ''evil'' = None"
    by (simp add: test_core_def)
  have h: "messageHandler test_core_env test_core [21] =
     (test_core\<lparr>dsLookupService := (dsLookupService test_core)(''evil'' \<mapsto> ''N'')\<rparr>, Inr [0])"
    by (simp add: messageHandler_def messageHandler_reply_def verifyMessageSignature_def
          InsertDatasetLookupEntry_def GetName_def test_protoUnmarshal_tampered
          test_protoMarshal_ok test_add_tampered_fields test_core_env_fields test_node_def)
  from test_protoUnmarshal_tampered v0 v1 t h show ?thesis by simp
qed

text \<open>\<^verbatim>\<open>resolveDatasetIdentifiersDeltas\<close> returns the core it was given, for every input.\<close>

lemma resolveDatasetIdentifiersDeltas_keeps_state:
  "fst (resolveDatasetIdentifiersDeltas d newIdentifiers node) = d"
  by (simp add: resolveDatasetIdentifiersDeltas_def)

text \<open>
  C3: a synchronize-dataset-identifiers message from node \<open>N\<close> with the identifier set
  \<open>{a, b, c}\<close> is to remove the entries of \<open>N\<close> that are not in the set. Evaluated on the
  code: with the lookup table \<open>a, b, c, x\<close> for \<open>N\<close> and \<open>y\<close> for \<open>M\<close>, the handler answers
  OK and the whole core, the stale entry \<open>x\<close> for \<open>N\<close> included, is as before.
\<close>

theorem messageHandler_synchronize_keeps_stale_entry:
  "protoUnmarshal test_core_env [30] = Inr test_sync \<and>
   dsLookupService test_core ''x'' = Some ''N'' \<and>
   messageHandler test_core_env test_core [30] = (test_core, Inr [0])"
proof -
  have t: "dsLookupService test_core ''x'' = Some ''N''"
    by (simp add: test_core_def)
  have h: "messageHandler test_core_env test_core [30] = (test_core, Inr [0])"
    by (simp add: messageHandler_def messageHandler_reply_def verifyMessageSignature_def
          resolveDatasetIdentifiersDeltas_def test_protoUnmarshal_sync
          test_protoMarshal_ok test_sync_fields)
  from test_protoUnmarshal_sync t h show ?thesis by simp
qed

text \<open>
  The bytes of a successful reply are the marshalled \<open>ok_message\<close>, whose signature field is
  nil; the rollback request, the other message the core originates, is signed before it is
  sent.
\<close>

lemma messageHandler_reply_unsigned:
  "messageHandler env d data = (d', Inr resp) \<Longrightarrow> protoMarshal env ok_message = Inr resp"
  by (auto simp: messageHandler_def messageHandler_reply_def
           split: sum.splits option.splits msg_type.splits prod.splits)

lemma showInt_5000: "showInt 5000 = ''5000''"
  by (simp add: showInt_def showNat.simps)

lemma test_rollback_request:
  "rollbackCheckout_request test_core_env test_core \<lparr>Seconds = 1700000000, Nanos = 0\<rparr> ''d1'' =
     Inr [51] \<and>
   protoUnmarshal test_core_env [51] =
     Inr (test_rollback_unsigned\<lparr>Signature := Some \<lparr>R = [50], S = []\<rparr>\<rparr>)"
proof -
  have n: "\<lparr>Type = MSG_TYPE_ROLLBACK_CHECKOUT,
            Sender = Some (pbNode test_core \<lparr>Seconds = 1700000000, Nanos = 0\<rparr>),
            StringValue = ''d1'', StringSlice = None, GossipMessage = None,
            Signature = None\<rparr> = test_rollback_unsigned"
    by (simp add: pbNode_def test_core_def test_config_def test_rollback_unsigned_def showInt_5000)
  have m0: "protoMarshal test_core_env test_rollback_unsigned = Inr [50]"
    by (simp add: test_core_env_def test_protoMarshal_def test_wire_def test_msgs)
  have m1: "protoMarshal test_core_env
              (test_rollback_unsigned\<lparr>Signature := Some \<lparr>R = [50], S = []\<rparr>\<rparr>) = Inr [51]"
    by (simp add: test_core_env_def test_protoMarshal_def test_wire_def test_msgs)
  have sg: "Sign test_core_env [50] = Inr ([50], [])"
    by (simp add: test_core_env_def)
  have u: "protoUnmarshal test_core_env [51] =
     Inr (test_rollback_unsigned\<lparr>Signature := Some \<lparr>R = [50], S = []\<rparr>\<rparr>)"
    by (simp add: test_core_env_def test_protoUnmarshal_def test_wire_def)
  show ?thesis
    unfolding rollbackCheckout_request_def Let_def n
    by (simp add: m0 m1 sg u)
qed

text \<open>
  C4: the response to a successfully handled direct message is to decode to an OK-typed
  envelope that carries a signature. Evaluated on the code: the validly signed
  add-dataset-identifier envelope is handled successfully, and the response bytes decode to
  an envelope of type OK whose signature field is nil.
\<close>

theorem messageHandler_reply_carries_no_signature:
  "messageHandler test_core_env test_core [20] =
     (test_core\<lparr>dsLookupService := (dsLookupService test_core)(''d1'' \<mapsto> ''N'')\<rparr>, Inr [0]) \<and>
   protoUnmarshal test_core_env [0] = Inr ok_message \<and>
   Type ok_message = MSG_TYPE_OK \<and>
   Signature ok_message = None"
proof -
  have h: "messageHandler test_core_env test_core [20] =
     (test_core\<lparr>dsLookupService := (dsLookupService test_core)(''d1'' \<mapsto> ''N'')\<rparr>, Inr [0])"
    by (simp add: messageHandler_def messageHandler_reply_def verifyMessageSignature_def
          InsertDatasetLookupEntry_def GetName_def test_protoUnmarshal_signed
          test_protoMarshal_ok test_add_signed_fields test_core_env_fields test_node_def)
  from h test_protoUnmarshal_ok show ?thesis by (simp add: ok_message_def)
qed

section \<open>The gossip handler at a repeated delivery\<close>

lemma processPolicyBatch_loop_gossipObs:
  "gossipObs (processPolicyBatch_loop env d body) = gossipObs d"
  by (induction body arbitrary: d)
     (auto simp: applyPolicy_def log_core_def Let_def split: option.split)

text \<open>
  Every delivery of a policy-store update applies the whole batch, whatever the ledger of
  observed messages holds.
\<close>

lemma gossipMessageHandler_applies_on_every_delivery:
  assumes "protoUnmarshal env data = Inr msg"
      and "Type msg = MSG_TYPE_POLICY_STORE_UPDATE"
      and "GossipMessage msg = Some g"
      and "GossipMessageBody g = Some body"
  shows "snd (gossipMessageHandler env d data) = Inr None \<and>
         applyPolicyCalls (fst (gossipMessageHandler env d data)) =
           applyPolicyCalls d @ map GetPolicy body \<and>
         GossipIsObserved (gossipObs (fst (gossipMessageHandler env d data))) (Some g)"
  using assms
  by (simp add: gossipMessageHandler_def processPolicyBatch_def verifyMessageSignature_def
        InsertObservedGossip_def GossipIsObserved_def log_core_def Let_def
        processPolicyBatch_loop_calls processPolicyBatch_loop_gossipObs)

lemma gossip_step:
  "gossipObs d = obs \<Longrightarrow>
   gossipMessageHandler test_core_env d [40] =
     (d\<lparr>gossipObs := List.insert ''g1'' obs,
        applyPolicyCalls := applyPolicyCalls d @ [Some test_policy],
        logged := logged d @ [Infof (''Directory server got gossip message'' @ [CHR 0x0A])]\<rparr>,
      Inr None)"
  by (simp add: gossipMessageHandler_def processPolicyBatch_def verifyMessageSignature_def
        InsertObservedGossip_def applyPolicy_def GetPolicy_def log_core_def Let_def
        test_protoUnmarshal_policy_update test_policy_update_fields)

text \<open>
  C2: delivering the same gossip message twice is to invoke \<^verbatim>\<open>applyPolicy\<close> once for each
  contained policy, the second delivery being discarded. Evaluated on the code: the
  policy-store update with identifier \<open>g1\<close> and one policy is delivered twice to a core that
  has seen nothing; after the first delivery \<^verbatim>\<open>applyPolicy\<close> has been called once and
  \<^verbatim>\<open>GossipIsObserved\<close> is true for the message; the second delivery succeeds as well and
  \<^verbatim>\<open>applyPolicy\<close> has then been called twice with the same policy.
\<close>

theorem gossipMessageHandler_reapplies_observed_message:
  "applyPolicyCalls test_core = [] \<and>
   \<not> GossipIsObserved (gossipObs test_core) (Some test_gossip) \<and>
   snd (gossipMessageHandler test_core_env test_core [40]) = Inr None \<and>
   applyPolicyCalls (fst (gossipMessageHandler test_core_env test_core [40])) =
     [Some test_policy] \<and>
   GossipIsObserved (gossipObs (fst (gossipMessageHandler test_core_env test_core [40])))
     (Some test_gossip) \<and>
   snd (gossipMessageHandler test_core_env
          (fst (gossipMessageHandler test_core_env test_core [40])) [40]) = Inr None \<and>
   applyPolicyCalls (fst (gossipMessageHandler test_core_env
          (fst (gossipMessageHandler test_core_env test_core [40])) [40])) =
     [Some test_policy, Some test_policy]"
proof -
  have a: "applyPolicyCalls test_core = []" "gossipObs test_core = []"
    by (simp_all add: test_core_def)
  note s1 = gossip_step [OF a(2)]
  have o: "gossipObs (fst (gossipMessageHandler test_core_env test_core [40])) = [''g1'']"
    by (simp add: s1)
  note s2 = gossip_step [OF o]
  from a s1 s2 show ?thesis
    by (simp add: GossipIsObserved_def test_policy_update_fields)
qed

end
